theory Spec2Isabelle
  imports Main "HOL-Library.Word" "HOL-Library.Signed_Division"
begin

section \<open>Go values\<close>

text \<open>
  A Go \<open>error\<close> value. \<open>NumError s\<close> is the \<open>*strconv.NumError\<close> that \<open>strconv.Atoi\<close>
  returns for the input \<open>s\<close>; \<open>Err m\<close> is an error produced by a collaborator or by the
  provider SDK; \<open>Errorf p e\<close> is \<open>fmt.Errorf(p + "%v", e)\<close>.
\<close>

datatype error = NumError string | Err string | Errorf string error

text \<open>A call either returns or panics (a nil pointer dereference at run time).\<close>

datatype 'a outcome = Returns 'a | Panics

subsection \<open>strconv.Atoi and strconv.Itoa\<close>

definition is_digit :: "char \<Rightarrow> bool" where
  "is_digit c = (48 \<le> (of_char c :: nat) \<and> (of_char c :: nat) \<le> 57)"

definition digit_val :: "char \<Rightarrow> nat" where
  "digit_val c = (of_char c :: nat) - 48"

text \<open>The loop \<open>n = n*10 + int(ch)\<close> over the digits, from the left.\<close>

fun digits_value :: "nat \<Rightarrow> string \<Rightarrow> nat" where
  "digits_value n [] = n"
| "digits_value n (ch # s) = digits_value (n * 10 + digit_val ch) s"

text \<open>
  \<open>strconv.Atoi\<close> on a platform whose \<open>int\<close> has 64 bits: an optional sign, then one or
  more decimal digits, and a value that fits \<open>int64\<close>. Everything else is a
  \<open>*NumError\<close> (its two kinds, syntax and range, are not told apart here).
\<close>

definition Atoi :: "string \<Rightarrow> error + int" where
  "Atoi s0 =
     (let s = (case s0 of [] \<Rightarrow> [] | c # cs \<Rightarrow> if c = CHR ''-'' \<or> c = CHR ''+'' then cs else s0);
          neg = (case s0 of [] \<Rightarrow> False | c # cs \<Rightarrow> c = CHR ''-'')
      in if s = [] \<or> \<not> list_all is_digit s then Inl (NumError s0)
         else let un = digits_value 0 s
              in if \<not> neg \<and> un \<ge> 2 ^ 63 then Inl (NumError s0)
                 else if neg \<and> un > 2 ^ 63 then Inl (NumError s0)
                 else Inr (if neg then - int un else int un))"

definition digit_char :: "nat \<Rightarrow> char" where
  "digit_char d = ''0123456789'' ! d"

fun nat_digits :: "nat \<Rightarrow> string" where
  "nat_digits n = (if n < 10 then [digit_char n] else nat_digits (n div 10) @ [digit_char (n mod 10)])"

declare nat_digits.simps [simp del]

definition Itoa :: "int \<Rightarrow> string" where
  "Itoa i = (if i < 0 then CHR ''-'' # nat_digits (nat (- i)) else nat_digits (nat i))"

subsection \<open>strings.Split with a one-byte separator\<close>

fun strings_Split :: "string \<Rightarrow> char \<Rightarrow> string list" where
  "strings_Split [] sep = [[]]"
| "strings_Split (c # s) sep =
     (if c = sep then [] # strings_Split s sep
      else (case strings_Split s sep of
              [] \<Rightarrow> [[c]]
            | part # parts \<Rightarrow> (c # part) # parts))"

section \<open>Data model\<close>

text \<open>\<open>NanosVolume\<close>, the provider-neutral volume record.\<close>

record nanos_volume =
  vol_Name :: string
  vol_Status :: string
  vol_Size :: string
  vol_Path :: string
  vol_CreatedAt :: string
  vol_AttachedTo :: string

text \<open>The zero value of \<open>NanosVolume\<close> (\<open>var vol NanosVolume\<close>).\<close>

definition zero_volume :: nanos_volume where
  "zero_volume = \<lparr>vol_Name = [], vol_Status = [], vol_Size = [], vol_Path = [],
                  vol_CreatedAt = [], vol_AttachedTo = []\<rparr>"

record cloud_config =
  ImageName :: string
  BucketName :: string

record config =
  CloudConfig :: cloud_config

text \<open>The fields of the \<open>Azure\<close> receiver that the volume operations read.\<close>

record azure =
  subID :: string
  groupName :: string
  storageAccount :: string

subsection \<open>Provider descriptors (package compute)\<close>

text \<open>
  A pointer field of the SDK is an \<open>option\<close>: \<open>None\<close> is nil. A \<open>date.Time\<close> is
  represented by the text its \<open>String\<close> method yields.
\<close>

datatype date_time = DateTime string

fun time_String :: "date_time \<Rightarrow> string" where
  "time_String (DateTime s) = s"

record creation_data =
  CreateOption :: string
  SourceURI :: "string option"
  StorageAccountID :: "string option"

record disk_properties =
  TimeCreated :: "date_time option"
  HyperVGeneration :: string
  DiskSizeGB :: "32 word option"
  CreationData :: "creation_data option"
  DiskState :: string

record disk =
  disk_ID :: "string option"
  disk_Name :: "string option"
  disk_Location :: "string option"
  ManagedBy :: "string option"
  DiskProperties :: "disk_properties option"

record managed_disk_parameters =
  mdp_ID :: "string option"

record data_disk =
  Lun :: "32 word option"
  dd_Name :: "string option"
  dd_CreateOption :: string
  ManagedDisk :: "managed_disk_parameters option"

record storage_profile =
  OsDisk :: "string option"
  DataDisks :: "data_disk list option"

record virtual_machine_properties =
  VMID :: "string option"
  StorageProfile :: "storage_profile option"

record virtual_machine =
  vm_ID :: "string option"
  vm_Name :: "string option"
  VirtualMachineProperties :: "virtual_machine_properties option"

datatype future = Future nat

subsection \<open>The paged disk listing\<close>

text \<open>
  \<open>compute.DiskListPage\<close>: the disks of the current page, and the provider's answers to
  the next-page requests still to come, in order (an error, or the next page). When no
  answer is left the listing has no next link. The answers are a finite list: a request
  that fails at every attempt, on which the loop of \<open>GetAllVolumes\<close> would never end,
  is not represented.
\<close>

record disk_list_page =
  page_current :: "disk list"
  page_pending :: "(error + disk list) list"

text \<open>\<open>Values\<close> returns nil when the current page is empty.\<close>

definition page_Values :: "disk_list_page \<Rightarrow> disk list option" where
  "page_Values page = (if page_current page = [] then None else Some (page_current page))"

text \<open>
  \<open>Next\<close> advances to the next page. Without a next link the page becomes empty and no
  request is made; a failed request leaves the current page as it is.
\<close>

definition page_Next :: "disk_list_page \<Rightarrow> disk_list_page \<times> error option" where
  "page_Next page =
     (case page_pending page of
        [] \<Rightarrow> (page\<lparr>page_current := []\<rparr>, None)
      | Inl err # rest \<Rightarrow> (page\<lparr>page_pending := rest\<rparr>, Some err)
      | Inr disks # rest \<Rightarrow> (\<lparr>page_current = disks, page_pending = rest\<rparr>, None))"

subsection \<open>Collaborators and provider clients\<close>

text \<open>
  What the operations call outside this file: the location helper, the local image and
  upload collaborators, and the SDK's disk and virtual machine clients.
\<close>

record env =
  getLocation :: "config \<Rightarrow> string"
  CreateLocalVolume :: "config \<Rightarrow> string \<Rightarrow> string \<Rightarrow> string \<Rightarrow> string \<Rightarrow> nanos_volume \<times> error option"
  CopyToBucket :: "config \<Rightarrow> string \<Rightarrow> error option"
  disks_CreateOrUpdate :: "string \<Rightarrow> string \<Rightarrow> disk \<Rightarrow> error option"
  disks_List :: "error + disk_list_page"
  disks_Delete :: "string \<Rightarrow> string \<Rightarrow> error option"
  disks_Get :: "string \<Rightarrow> string \<Rightarrow> error + disk"
  vm_Get :: "string \<Rightarrow> string \<Rightarrow> error + virtual_machine"
  vm_CreateOrUpdate :: "string \<Rightarrow> string \<Rightarrow> virtual_machine \<Rightarrow> error + future"
  WaitForCompletionRef :: "future \<Rightarrow> error option"

text \<open>The calls an operation makes, in order, with their arguments.\<close>

datatype call =
    Call_CreateLocalVolume config string string string string
  | Call_CopyToBucket config string
  | Call_disks_CreateOrUpdate string string disk
  | Call_disks_Delete string string
  | Call_disks_Get string string
  | Call_vm_Get string string
  | Call_vm_CreateOrUpdate string string virtual_machine
  | Call_WaitForCompletionRef future
  | Println string

section \<open>The Azure backend\<close>

subsection \<open>CreateVolume\<close>

definition CreateVolume ::
  "env \<Rightarrow> azure \<Rightarrow> config \<Rightarrow> string \<Rightarrow> string \<Rightarrow> string \<Rightarrow> string
     \<Rightarrow> (nanos_volume \<times> error option) \<times> config \<times> call list" where
  "CreateVolume e a config name data sizeStr provider =
     (let location = getLocation e config in
      case Atoi sizeStr of
        Inl err \<Rightarrow> ((zero_volume, Some err), config, [])
      | Inr sizeInt \<Rightarrow>
          let t1 = [Call_CreateLocalVolume config name data sizeStr provider] in
          (case CreateLocalVolume e config name data sizeStr provider of
             (vol, Some err) \<Rightarrow> ((vol, Some (Errorf ''create local volume: '' err)), config, t1)
           | (vol, None) \<Rightarrow>
               let config = config\<lparr>CloudConfig := (CloudConfig config)\<lparr>ImageName := name\<rparr>\<rparr>;
                   t2 = t1 @ [Call_CopyToBucket config (vol_Path vol)] in
               (case CopyToBucket e config (vol_Path vol) of
                  Some err \<Rightarrow>
                    ((vol, Some (Errorf ''copy volume archive to azure bucket: '' err)), config, t2)
                | None \<Rightarrow>
                    let bucket = BucketName (CloudConfig config);
                        bucket = (if bucket = [] then storageAccount a else bucket);
                        container = ''quickstart-nanos'';
                        disk = name @ ''.vhd'';
                        sourceURI = ''https://'' @ bucket @ ''.blob.core.windows.net/''
                                      @ container @ ''/'' @ disk;
                        diskParams = \<lparr>
                          disk_ID = None,
                          disk_Name = Some name,
                          disk_Location = Some location,
                          ManagedBy = None,
                          DiskProperties = Some \<lparr>
                            TimeCreated = None,
                            HyperVGeneration = ''V1'',
                            DiskSizeGB = Some (word_of_int (sizeInt sdiv 1000 sdiv 1000)),
                            CreationData = Some \<lparr>
                              CreateOption = ''Import'',
                              SourceURI = Some sourceURI,
                              StorageAccountID = Some (''/subscriptions/'' @ subID a
                                @ ''/resourceGroups/'' @ groupName a
                                @ ''/providers/Microsoft.Storage/storageAccounts/'' @ bucket)\<rparr>,
                            DiskState = []\<rparr>\<rparr>;
                        t3 = t2 @ [Call_disks_CreateOrUpdate (groupName a) name diskParams] in
                    (case disks_CreateOrUpdate e (groupName a) name diskParams of
                       Some err \<Rightarrow> ((vol, Some err), config, t3)
                     | None \<Rightarrow> ((vol, None), config, t3)))))"

subsection \<open>GetAllVolumes\<close>

text \<open>
  The body of the loop over the disks of a page: the volume record built from one disk
  descriptor. \<open>ManagedBy\<close> is checked for nil; \<open>Name\<close>, \<open>DiskProperties\<close>,
  \<open>DiskSizeGB\<close> and \<open>TimeCreated\<close> are dereferenced as they are.
\<close>

definition nanos_volume_of_disk :: "disk \<Rightarrow> nanos_volume outcome" where
  "nanos_volume_of_disk disk =
     (case (case ManagedBy disk of
              None \<Rightarrow> Returns []
            | Some managedBy \<Rightarrow>
                let instanceURLParts = strings_Split managedBy (CHR ''/'') in
                if instanceURLParts = [] then Panics
                else Returns (instanceURLParts ! (length instanceURLParts - 1))) of
        Panics \<Rightarrow> Panics
      | Returns attachedTo \<Rightarrow>
          (case disk_Name disk of
             None \<Rightarrow> Panics
           | Some name \<Rightarrow>
               (case DiskProperties disk of
                  None \<Rightarrow> Panics
                | Some props \<Rightarrow>
                    (case DiskSizeGB props of
                       None \<Rightarrow> Panics
                     | Some sizeGB \<Rightarrow>
                         (case TimeCreated props of
                            None \<Rightarrow> Panics
                          | Some created \<Rightarrow>
                              Returns \<lparr>vol_Name = name,
                                       vol_Status = DiskState props,
                                       vol_Size = Itoa (sint sizeGB),
                                       vol_Path = [],
                                       vol_CreatedAt = time_String created,
                                       vol_AttachedTo = attachedTo\<rparr>)))))"

text \<open>
  \<open>for _, disk := range disks\<close>: appends one volume per disk and calls \<open>Next\<close> on the
  page after each disk, dropping the error that \<open>Next\<close> returns.
\<close>

fun range_disks ::
  "nanos_volume list \<Rightarrow> disk_list_page \<Rightarrow> disk list \<Rightarrow> (nanos_volume list \<times> disk_list_page) outcome" where
  "range_disks vols page [] = Returns (vols, page)"
| "range_disks vols page (disk # disks) =
     (case nanos_volume_of_disk disk of
        Panics \<Rightarrow> Panics
      | Returns vol \<Rightarrow> range_disks (vols @ [vol]) (fst (page_Next page)) disks)"

text \<open>How far a listing is from its end: two per pending answer, one for a non-empty page.\<close>

definition page_measure :: "disk_list_page \<Rightarrow> nat" where
  "page_measure page = 2 * length (page_pending page) + (if page_current page = [] then 0 else 1)"

lemma page_Next_measure:
  "page_measure (fst (page_Next page)) < page_measure page \<or>
   (page_pending page = [] \<and> fst (page_Next page) = page\<lparr>page_current := []\<rparr>)"
  by (simp add: page_Next_def page_measure_def split: list.splits sum.splits)

lemma range_disks_measure_le:
  "range_disks vols page disks = Returns (vols', page') \<Longrightarrow>
   page_measure page' \<le> page_measure page"
proof (induction disks arbitrary: vols page)
  case Nil
  then show ?case by simp
next
  case (Cons disk disks)
  from Cons.prems obtain vol where
    rest: "range_disks (vols @ [vol]) (fst (page_Next page)) disks = Returns (vols', page')"
    by (auto split: outcome.splits)
  have "page_measure (fst (page_Next page)) \<le> page_measure page"
    using page_Next_measure [of page] by (auto simp: page_measure_def)
  with Cons.IH [OF rest] show ?case by simp
qed

lemma range_disks_measure_less:
  assumes "range_disks vols page disks = Returns (vols', page')"
    and "disks \<noteq> []" and "page_current page \<noteq> []"
  shows "page_measure page' < page_measure page"
proof -
  from assms(2) obtain disk rest where disks: "disks = disk # rest"
    by (cases disks) auto
  with assms(1) obtain vol where
    tl: "range_disks (vols @ [vol]) (fst (page_Next page)) rest = Returns (vols', page')"
    by (auto split: outcome.splits)
  have step: "page_measure (fst (page_Next page)) < page_measure page"
    using assms(3) by (auto simp: page_Next_def page_measure_def split: list.splits sum.splits)
  from range_disks_measure_le [OF tl] step show ?thesis by simp
qed

text \<open>The outer \<open>for\<close> loop: it ends when \<open>Values\<close> returns nil.\<close>

function get_all_volumes_loop :: "nanos_volume list \<Rightarrow> disk_list_page \<Rightarrow> nanos_volume list outcome" where
  "get_all_volumes_loop vols page =
     (case page_Values page of
        None \<Rightarrow> Returns vols
      | Some disks \<Rightarrow>
          (case range_disks vols page disks of
             Panics \<Rightarrow> Panics
           | Returns (vols', page') \<Rightarrow> get_all_volumes_loop vols' page'))"
  by pat_completeness auto
termination
proof (relation "measure (\<lambda>(vols, page). page_measure page)")
  show "wf (measure (\<lambda>(vols, page). page_measure page))" by simp
next
  fix vols :: "nanos_volume list" and page disks x2 vols' page'
  assume "page_Values page = Some disks"
    and "range_disks vols page disks = Returns x2" and "(vols', page') = x2"
  then have "range_disks vols page disks = Returns (vols', page')"
    and "disks \<noteq> []" and "page_current page \<noteq> []"
    by (auto simp: page_Values_def split: if_splits)
  from range_disks_measure_less [OF this]
  show "((vols', page'), (vols, page)) \<in> measure (\<lambda>(vols, page). page_measure page)"
    by simp
qed

declare get_all_volumes_loop.simps [simp del]

definition GetAllVolumes :: "env \<Rightarrow> azure \<Rightarrow> config \<Rightarrow> (nanos_volume list option \<times> error option) outcome" where
  "GetAllVolumes e a config =
     (case disks_List e of
        Inl err \<Rightarrow> Returns (None, Some err)
      | Inr azureDisksPage \<Rightarrow>
          (case get_all_volumes_loop [] azureDisksPage of
             Panics \<Rightarrow> Panics
           | Returns vols \<Rightarrow> Returns (Some vols, None)))"

subsection \<open>DeleteVolume\<close>

definition DeleteVolume :: "env \<Rightarrow> azure \<Rightarrow> config \<Rightarrow> string \<Rightarrow> error option \<times> call list" where
  "DeleteVolume e a config name =
     (case disks_Delete e (groupName a) name of
        Some err \<Rightarrow> (Some err, [Call_disks_Delete (groupName a) name])
      | None \<Rightarrow> (None, [Call_disks_Delete (groupName a) name]))"

subsection \<open>AttachVolume and DetachVolume\<close>

text \<open>Reading and writing \<open>vm.StorageProfile.DataDisks\<close>, through two embedded pointers.\<close>

definition get_DataDisks :: "virtual_machine \<Rightarrow> data_disk list outcome" where
  "get_DataDisks vm =
     (case VirtualMachineProperties vm of
        None \<Rightarrow> Panics
      | Some props \<Rightarrow>
          (case StorageProfile props of
             None \<Rightarrow> Panics
           | Some profile \<Rightarrow>
               (case DataDisks profile of None \<Rightarrow> Panics | Some dataDisks \<Rightarrow> Returns dataDisks)))"

definition set_DataDisks :: "virtual_machine \<Rightarrow> data_disk list \<Rightarrow> virtual_machine outcome" where
  "set_DataDisks vm dataDisks =
     (case VirtualMachineProperties vm of
        None \<Rightarrow> Panics
      | Some props \<Rightarrow>
          (case StorageProfile props of
             None \<Rightarrow> Panics
           | Some profile \<Rightarrow>
               Returns (vm\<lparr>VirtualMachineProperties :=
                 Some (props\<lparr>StorageProfile := Some (profile\<lparr>DataDisks := Some dataDisks\<rparr>)\<rparr>)\<rparr>)))"

text \<open>The tail shared by both operations: submit the descriptor, print the notice, wait.\<close>

definition update_and_wait ::
  "env \<Rightarrow> azure \<Rightarrow> string \<Rightarrow> string \<Rightarrow> virtual_machine \<Rightarrow> call list \<Rightarrow> error option outcome \<times> call list" where
  "update_and_wait e a img notice vm t =
     (let t = t @ [Call_vm_CreateOrUpdate (groupName a) img vm] in
      case vm_CreateOrUpdate e (groupName a) img vm of
        Inl err \<Rightarrow> (Returns (Some (Errorf ''cannot update vm: '' err)), t)
      | Inr future \<Rightarrow>
          let t = t @ [Println notice, Call_WaitForCompletionRef future] in
          (case WaitForCompletionRef e future of
             Some err \<Rightarrow>
               (Returns (Some (Errorf ''cannot get the vm create or update future response: '' err)), t)
           | None \<Rightarrow> (Returns None, t)))"

definition AttachVolume ::
  "env \<Rightarrow> azure \<Rightarrow> config \<Rightarrow> string \<Rightarrow> string \<Rightarrow> string \<Rightarrow> error option outcome \<times> call list" where
  "AttachVolume e a config img name mount =
     (let t = [Call_vm_Get (groupName a) img] in
      case vm_Get e (groupName a) img of
        Inl err \<Rightarrow> (Returns (Some err), t)
      | Inr vm \<Rightarrow>
          let t = t @ [Call_disks_Get (groupName a) name] in
          (case disks_Get e (groupName a) name of
             Inl err \<Rightarrow> (Returns (Some err), t)
           | Inr disk \<Rightarrow>
               (case disk_ID disk of
                  None \<Rightarrow> (Panics, t)
                | Some diskID \<Rightarrow>
                    (case set_DataDisks vm
                            [\<lparr>Lun = Some 0, dd_Name = Some name, dd_CreateOption = ''Attach'',
                              ManagedDisk = Some \<lparr>mdp_ID = Some diskID\<rparr>\<rparr>] of
                       Panics \<Rightarrow> (Panics, t)
                     | Returns vm' \<Rightarrow>
                         update_and_wait e a img
                           ''attaching the volume - this can take a few minutes - you can ctrl-c this after a bit''
                           vm' t))))"

text \<open>The loop of \<open>DetachVolume\<close>: keep the data disks whose name differs.\<close>

fun detach_filter :: "string \<Rightarrow> data_disk list \<Rightarrow> data_disk list \<Rightarrow> data_disk list outcome" where
  "detach_filter name dataDisks [] = Returns dataDisks"
| "detach_filter name dataDisks (disk # rest) =
     (case dd_Name disk of
        None \<Rightarrow> Panics
      | Some diskName \<Rightarrow>
          if diskName \<noteq> name then detach_filter name (dataDisks @ [disk]) rest
          else detach_filter name dataDisks rest)"

definition DetachVolume ::
  "env \<Rightarrow> azure \<Rightarrow> config \<Rightarrow> string \<Rightarrow> string \<Rightarrow> error option outcome \<times> call list" where
  "DetachVolume e a config img name =
     (let t = [Call_vm_Get (groupName a) img] in
      case vm_Get e (groupName a) img of
        Inl err \<Rightarrow> (Returns (Some err), t)
      | Inr vm \<Rightarrow>
          (case get_DataDisks vm of
             Panics \<Rightarrow> (Panics, t)
           | Returns current \<Rightarrow>
               (case detach_filter name [] current of
                  Panics \<Rightarrow> (Panics, t)
                | Returns dataDisks \<Rightarrow>
                    (case set_DataDisks vm dataDisks of
                       Panics \<Rightarrow> (Panics, t)
                     | Returns vm' \<Rightarrow>
                         update_and_wait e a img
                           ''detaching the volume - this can take a few minutes - you can ctrl-c this after a bit''
                           vm' t))))"

section \<open>The IBM stub backend\<close>

definition ibm_CreateVolume :: "'ctx \<Rightarrow> string \<Rightarrow> string \<Rightarrow> string \<Rightarrow> nanos_volume \<times> error option" where
  "ibm_CreateVolume ctx name data provider = (zero_volume, None)"

definition ibm_GetAllVolumes :: "'ctx \<Rightarrow> nanos_volume list option \<times> error option" where
  "ibm_GetAllVolumes ctx = (None, None)"

definition ibm_DeleteVolume :: "'ctx \<Rightarrow> string \<Rightarrow> error option" where
  "ibm_DeleteVolume ctx name = None"

definition ibm_AttachVolume :: "'ctx \<Rightarrow> string \<Rightarrow> string \<Rightarrow> int \<Rightarrow> error option" where
  "ibm_AttachVolume ctx img name attachID = None"

definition ibm_DetachVolume :: "'ctx \<Rightarrow> string \<Rightarrow> string \<Rightarrow> error option" where
  "ibm_DetachVolume ctx img name = None"

section \<open>Observing a run\<close>

text \<open>The configuration after \<open>config.CloudConfig.ImageName = name\<close>.\<close>

abbreviation with_ImageName :: "config \<Rightarrow> string \<Rightarrow> config" where
  "with_ImageName config name \<equiv> config\<lparr>CloudConfig := (CloudConfig config)\<lparr>ImageName := name\<rparr>\<rparr>"

text \<open>The disks an operation asked the provider to create, and the size of each.\<close>

fun created_disks :: "call list \<Rightarrow> disk list" where
  "created_disks [] = []"
| "created_disks (Call_disks_CreateOrUpdate g n d # t) = d # created_disks t"
| "created_disks (c # t) = created_disks t"


text \<open>The part of a string after its last separator; all of it when it has none.\<close>

definition after_last :: "char \<Rightarrow> string \<Rightarrow> string" where
  "after_last sep s = rev (takeWhile (\<lambda>c. c \<noteq> sep) (rev s))"

text \<open>Every disk of a listing: the current page and the pages still to come.\<close>

definition listed_disks :: "disk_list_page \<Rightarrow> disk list" where
  "listed_disks page =
     page_current page @ concat (map (\<lambda>r. case r of Inl err \<Rightarrow> [] | Inr disks \<Rightarrow> disks) (page_pending page))"

text \<open>The fields of a disk descriptor that the listing dereferences without a check.\<close>

definition disk_populated :: "disk \<Rightarrow> bool" where
  "disk_populated d =
     (case DiskProperties d of
        None \<Rightarrow> False
      | Some props \<Rightarrow> disk_Name d \<noteq> None \<and> DiskSizeGB props \<noteq> None \<and> TimeCreated props \<noteq> None)"

text \<open>The notices printed before waiting, and the data disk that AttachVolume builds.\<close>

abbreviation attach_notice :: string where
  "attach_notice \<equiv> ''attaching the volume - this can take a few minutes - you can ctrl-c this after a bit''"

abbreviation detach_notice :: string where
  "detach_notice \<equiv> ''detaching the volume - this can take a few minutes - you can ctrl-c this after a bit''"

abbreviation attached_disk :: "string \<Rightarrow> string \<Rightarrow> data_disk" where
  "attached_disk name diskID \<equiv>
     \<lparr>Lun = Some 0, dd_Name = Some name, dd_CreateOption = ''Attach'',
      ManagedDisk = Some \<lparr>mdp_ID = Some diskID\<rparr>\<rparr>"

text \<open>An instance descriptor with its data-disk list replaced, all else unchanged.\<close>

abbreviation with_DataDisks ::
  "virtual_machine \<Rightarrow> virtual_machine_properties \<Rightarrow> storage_profile \<Rightarrow> data_disk list \<Rightarrow> virtual_machine" where
  "with_DataDisks vm props profile dataDisks \<equiv>
     vm\<lparr>VirtualMachineProperties :=
       Some (props\<lparr>StorageProfile := Some (profile\<lparr>DataDisks := Some dataDisks\<rparr>)\<rparr>)\<rparr>"

subsection \<open>Concrete environments\<close>

text \<open>A provider and collaborators that accept everything, for concrete runs.\<close>

definition env_ok :: env where
  "env_ok = \<lparr>getLocation = (\<lambda>c. ''westus''),
     CreateLocalVolume = (\<lambda>c name data sz provider.
       (\<lparr>vol_Name = name, vol_Status = [], vol_Size = sz, vol_Path = ''/tmp/'' @ name @ ''.raw'',
         vol_CreatedAt = [], vol_AttachedTo = []\<rparr>, None)),
     CopyToBucket = (\<lambda>c p. None),
     disks_CreateOrUpdate = (\<lambda>g n d. None),
     disks_List = Inr \<lparr>page_current = [], page_pending = []\<rparr>,
     disks_Delete = (\<lambda>g n. None),
     disks_Get = (\<lambda>g n. Inl (Err ''not found'')),
     vm_Get = (\<lambda>g n. Inl (Err ''not found'')),
     vm_CreateOrUpdate = (\<lambda>g n v. Inr (Future 0)),
     WaitForCompletionRef = (\<lambda>f. None)\<rparr>"

definition azure0 :: azure where
  "azure0 = \<lparr>subID = ''sub'', groupName = ''group'', storageAccount = ''account''\<rparr>"

definition config0 :: config where
  "config0 = \<lparr>CloudConfig = \<lparr>ImageName = [], BucketName = []\<rparr>\<rparr>"

text \<open>The volume that \<open>env_ok\<close> synthesizes locally for \<open>vol1\<close> and 4,000,000 bytes.\<close>

definition vol1_local :: nanos_volume where
  "vol1_local = \<lparr>vol_Name = ''vol1'', vol_Status = [], vol_Size = ''4000000'',
     vol_Path = ''/tmp/vol1.raw'', vol_CreatedAt = [], vol_AttachedTo = []\<rparr>"

subsection \<open>Concrete disks, volumes and instances\<close>

definition disk_a :: disk where
  "disk_a = \<lparr>disk_ID = Some ''/disks/a'', disk_Name = Some ''a'', disk_Location = Some ''westus'',
     ManagedBy = Some ''/subscriptions/sub/resourceGroups/group/providers/Microsoft.Compute/virtualMachines/vm1'',
     DiskProperties = Some \<lparr>TimeCreated = Some (DateTime ''2020-06-01T10:00:00Z''),
       HyperVGeneration = ''V1'', DiskSizeGB = Some 5, CreationData = None,
       DiskState = ''Attached''\<rparr>\<rparr>"

definition disk_b :: disk where
  "disk_b = \<lparr>disk_ID = Some ''/disks/b'', disk_Name = Some ''b'', disk_Location = Some ''westus'',
     ManagedBy = None,
     DiskProperties = Some \<lparr>TimeCreated = Some (DateTime ''2020-06-02T10:00:00Z''),
       HyperVGeneration = ''V1'', DiskSizeGB = Some 10, CreationData = None,
       DiskState = ''Unattached''\<rparr>\<rparr>"

definition disk_c :: disk where
  "disk_c = \<lparr>disk_ID = Some ''/disks/c'', disk_Name = Some ''c'', disk_Location = Some ''westus'',
     ManagedBy = None,
     DiskProperties = Some \<lparr>TimeCreated = Some (DateTime ''2020-06-03T10:00:00Z''),
       HyperVGeneration = ''V1'', DiskSizeGB = Some 20, CreationData = None,
       DiskState = ''Unattached''\<rparr>\<rparr>"

definition disk_unnamed :: disk where
  "disk_unnamed = disk_c\<lparr>disk_Name := None\<rparr>"

definition volume_a :: nanos_volume where
  "volume_a = \<lparr>vol_Name = ''a'', vol_Status = ''Attached'', vol_Size = ''5'', vol_Path = [],
     vol_CreatedAt = ''2020-06-01T10:00:00Z'', vol_AttachedTo = ''vm1''\<rparr>"

definition volume_b :: nanos_volume where
  "volume_b = \<lparr>vol_Name = ''b'', vol_Status = ''Unattached'', vol_Size = ''10'', vol_Path = [],
     vol_CreatedAt = ''2020-06-02T10:00:00Z'', vol_AttachedTo = []\<rparr>"

definition volume_c :: nanos_volume where
  "volume_c = \<lparr>vol_Name = ''c'', vol_Status = ''Unattached'', vol_Size = ''20'', vol_Path = [],
     vol_CreatedAt = ''2020-06-03T10:00:00Z'', vol_AttachedTo = []\<rparr>"

text \<open>A provider whose listing starts with one page and answers further requests in order.\<close>

definition env_listing :: "disk list \<Rightarrow> (error + disk list) list \<Rightarrow> env" where
  "env_listing first pending =
     env_ok\<lparr>disks_List := Inr \<lparr>page_current = first, page_pending = pending\<rparr>\<rparr>"

definition vm1 :: virtual_machine where
  "vm1 = \<lparr>vm_ID = Some ''/virtualMachines/vm1'', vm_Name = Some ''vm1'',
     VirtualMachineProperties = Some \<lparr>VMID = Some ''0001'',
       StorageProfile = Some \<lparr>OsDisk = Some ''os'',
         DataDisks = Some [attached_disk ''a'' ''/disks/a'']\<rparr>\<rparr>\<rparr>"

definition vm1_with_b :: virtual_machine where
  "vm1_with_b = \<lparr>vm_ID = Some ''/virtualMachines/vm1'', vm_Name = Some ''vm1'',
     VirtualMachineProperties = Some \<lparr>VMID = Some ''0001'',
       StorageProfile = Some \<lparr>OsDisk = Some ''os'',
         DataDisks = Some [attached_disk ''b'' ''/disks/b'']\<rparr>\<rparr>\<rparr>"

definition vm_unnamed_disk :: virtual_machine where
  "vm_unnamed_disk = \<lparr>vm_ID = Some ''/virtualMachines/vm2'', vm_Name = Some ''vm2'',
     VirtualMachineProperties = Some \<lparr>VMID = Some ''0002'',
       StorageProfile = Some \<lparr>OsDisk = Some ''os'',
         DataDisks = Some [\<lparr>Lun = Some 0, dd_Name = None, dd_CreateOption = ''Attach'',
           ManagedDisk = None\<rparr>]\<rparr>\<rparr>\<rparr>"

definition env_vm :: env where
  "env_vm = env_ok\<lparr>vm_Get := (\<lambda>g n. Inr vm1), disks_Get := (\<lambda>g n. Inr disk_b)\<rparr>"

section \<open>CreateVolume: the four ways out\<close>

lemma CreateVolume_bad_size:
  "Atoi sizeStr = Inl err \<Longrightarrow>
   CreateVolume e a config name data sizeStr provider = ((zero_volume, Some err), config, [])"
  by (simp add: CreateVolume_def)

lemma CreateVolume_local_failed:
  "Atoi sizeStr = Inr n \<Longrightarrow>
   CreateLocalVolume e config name data sizeStr provider = (vol, Some err) \<Longrightarrow>
   CreateVolume e a config name data sizeStr provider =
     ((vol, Some (Errorf ''create local volume: '' err)), config,
      [Call_CreateLocalVolume config name data sizeStr provider])"
  by (simp add: CreateVolume_def)

lemma CreateVolume_upload_failed:
  "Atoi sizeStr = Inr n \<Longrightarrow>
   CreateLocalVolume e config name data sizeStr provider = (vol, None) \<Longrightarrow>
   CopyToBucket e (with_ImageName config name) (vol_Path vol) = Some err \<Longrightarrow>
   CreateVolume e a config name data sizeStr provider =
     ((vol, Some (Errorf ''copy volume archive to azure bucket: '' err)), with_ImageName config name,
      [Call_CreateLocalVolume config name data sizeStr provider,
       Call_CopyToBucket (with_ImageName config name) (vol_Path vol)])"
  by (simp add: CreateVolume_def Let_def)

lemma CreateVolume_uploaded:
  assumes "Atoi sizeStr = Inr n"
    and "CreateLocalVolume e config name data sizeStr provider = (vol, None)"
    and "CopyToBucket e (with_ImageName config name) (vol_Path vol) = None"
  shows "\<exists>diskParams props.
     CreateVolume e a config name data sizeStr provider =
       ((vol, disks_CreateOrUpdate e (groupName a) name diskParams), with_ImageName config name,
        [Call_CreateLocalVolume config name data sizeStr provider,
         Call_CopyToBucket (with_ImageName config name) (vol_Path vol),
         Call_disks_CreateOrUpdate (groupName a) name diskParams]) \<and>
     disk_Name diskParams = Some name \<and>
     DiskProperties diskParams = Some props \<and>
     DiskSizeGB props = Some (word_of_int (n sdiv 1000 sdiv 1000))"
  using assms by (simp add: CreateVolume_def Let_def split: option.splits)


section \<open>Size conversion\<close>










section \<open>CreateVolume: failures and the configuration\<close>

text \<open>
  C7. CreateVolume returns the parse error without calling anything when the size string
  is not an integer; after a failed local synthesis it has called the local image
  collaborator only; after a failed upload it has called that and the upload only; in none
  of the three has it asked the provider to create a disk. When all three succeed it asks
  the provider once, and returns whatever error the provider gives.
\<close>

theorem CreateVolume_aborts_early:
  "(Atoi sizeStr = Inl err \<longrightarrow>
      CreateVolume e a config name data sizeStr provider = ((zero_volume, Some err), config, []))
   \<and> (Atoi sizeStr = Inr n \<and> CreateLocalVolume e config name data sizeStr provider = (vol, Some err) \<longrightarrow>
        snd (fst (CreateVolume e a config name data sizeStr provider))
          = Some (Errorf ''create local volume: '' err)
        \<and> snd (snd (CreateVolume e a config name data sizeStr provider))
          = [Call_CreateLocalVolume config name data sizeStr provider])
   \<and> (Atoi sizeStr = Inr n \<and> CreateLocalVolume e config name data sizeStr provider = (vol, None)
        \<and> CopyToBucket e (with_ImageName config name) (vol_Path vol) = Some err \<longrightarrow>
        snd (fst (CreateVolume e a config name data sizeStr provider))
          = Some (Errorf ''copy volume archive to azure bucket: '' err)
        \<and> snd (snd (CreateVolume e a config name data sizeStr provider))
          = [Call_CreateLocalVolume config name data sizeStr provider,
             Call_CopyToBucket (with_ImageName config name) (vol_Path vol)])
   \<and> (Atoi sizeStr = Inr n \<and> CreateLocalVolume e config name data sizeStr provider = (vol, None)
        \<and> CopyToBucket e (with_ImageName config name) (vol_Path vol) = None \<longrightarrow>
        (\<exists>diskParams.
           snd (snd (CreateVolume e a config name data sizeStr provider))
             = [Call_CreateLocalVolume config name data sizeStr provider,
                Call_CopyToBucket (with_ImageName config name) (vol_Path vol),
                Call_disks_CreateOrUpdate (groupName a) name diskParams]
           \<and> snd (fst (CreateVolume e a config name data sizeStr provider))
             = disks_CreateOrUpdate e (groupName a) name diskParams))"
proof (intro conjI impI)
  assume "Atoi sizeStr = Inl err"
  then show "CreateVolume e a config name data sizeStr provider = ((zero_volume, Some err), config, [])"
    by (rule CreateVolume_bad_size)
next
  assume h: "Atoi sizeStr = Inr n \<and> CreateLocalVolume e config name data sizeStr provider = (vol, Some err)"
  then have r: "CreateVolume e a config name data sizeStr provider =
     ((vol, Some (Errorf ''create local volume: '' err)), config,
      [Call_CreateLocalVolume config name data sizeStr provider])"
    by (simp add: CreateVolume_local_failed)
  show "snd (fst (CreateVolume e a config name data sizeStr provider))
          = Some (Errorf ''create local volume: '' err)"
    by (simp add: r)
  show "snd (snd (CreateVolume e a config name data sizeStr provider))
          = [Call_CreateLocalVolume config name data sizeStr provider]"
    by (simp add: r)
next
  assume h: "Atoi sizeStr = Inr n \<and> CreateLocalVolume e config name data sizeStr provider = (vol, None)
        \<and> CopyToBucket e (with_ImageName config name) (vol_Path vol) = Some err"
  then have r: "CreateVolume e a config name data sizeStr provider =
     ((vol, Some (Errorf ''copy volume archive to azure bucket: '' err)), with_ImageName config name,
      [Call_CreateLocalVolume config name data sizeStr provider,
       Call_CopyToBucket (with_ImageName config name) (vol_Path vol)])"
    by (simp add: CreateVolume_upload_failed)
  show "snd (fst (CreateVolume e a config name data sizeStr provider))
          = Some (Errorf ''copy volume archive to azure bucket: '' err)"
    by (simp add: r)
  show "snd (snd (CreateVolume e a config name data sizeStr provider))
          = [Call_CreateLocalVolume config name data sizeStr provider,
             Call_CopyToBucket (with_ImageName config name) (vol_Path vol)]"
    by (simp add: r)
next
  assume h: "Atoi sizeStr = Inr n \<and> CreateLocalVolume e config name data sizeStr provider = (vol, None)
        \<and> CopyToBucket e (with_ImageName config name) (vol_Path vol) = None"
  then have h1: "Atoi sizeStr = Inr n"
    and h2: "CreateLocalVolume e config name data sizeStr provider = (vol, None)"
    and h3: "CopyToBucket e (with_ImageName config name) (vol_Path vol) = None"
    by simp_all
  from CreateVolume_uploaded [OF h1 h2 h3, of a] obtain diskParams where
    r: "CreateVolume e a config name data sizeStr provider =
       ((vol, disks_CreateOrUpdate e (groupName a) name diskParams), with_ImageName config name,
        [Call_CreateLocalVolume config name data sizeStr provider,
         Call_CopyToBucket (with_ImageName config name) (vol_Path vol),
         Call_disks_CreateOrUpdate (groupName a) name diskParams])"
    by blast
  show "\<exists>diskParams.
           snd (snd (CreateVolume e a config name data sizeStr provider))
             = [Call_CreateLocalVolume config name data sizeStr provider,
                Call_CopyToBucket (with_ImageName config name) (vol_Path vol),
                Call_disks_CreateOrUpdate (groupName a) name diskParams]
           \<and> snd (fst (CreateVolume e a config name data sizeStr provider))
             = disks_CreateOrUpdate e (groupName a) name diskParams"
    by (rule exI [of _ diskParams]) (simp add: r)
qed

theorem CreateVolume_aborts_early_witness:
  "CreateVolume env_ok azure0 config0 ''vol1'' [] ''4m'' ''azure''
     = ((zero_volume, Some (NumError ''4m'')), config0, [])
   \<and> snd (snd (CreateVolume
        (env_ok\<lparr>CreateLocalVolume := (\<lambda>c n d s p. (zero_volume, Some (Err ''mkfs'')))\<rparr>)
        azure0 config0 ''vol1'' [] ''4000000'' ''azure''))
       = [Call_CreateLocalVolume config0 ''vol1'' [] ''4000000'' ''azure'']
   \<and> created_disks (snd (snd (CreateVolume
        (env_ok\<lparr>CopyToBucket := (\<lambda>c p. Some (Err ''upload''))\<rparr>)
        azure0 config0 ''vol1'' [] ''4000000'' ''azure''))) = []
   \<and> snd (fst (CreateVolume
        (env_ok\<lparr>disks_CreateOrUpdate := (\<lambda>g n d. Some (Err ''quota''))\<rparr>)
        azure0 config0 ''vol1'' [] ''4000000'' ''azure'')) = Some (Err ''quota'')"
proof -
  have bad: "Atoi ''4m'' = Inl (NumError ''4m'')"
    by (simp add: Atoi_def is_digit_def digit_val_def)
  have ok: "Atoi ''4000000'' = Inr 4000000"
    by (simp add: Atoi_def is_digit_def digit_val_def)
  have c1: "CreateVolume env_ok azure0 config0 ''vol1'' [] ''4m'' ''azure''
     = ((zero_volume, Some (NumError ''4m'')), config0, [])"
    using CreateVolume_aborts_early [of "''4m''" "NumError ''4m''" env_ok azure0 config0 "''vol1''" "[]" "''azure''"] bad
    by simp
  have c2: "snd (snd (CreateVolume
        (env_ok\<lparr>CreateLocalVolume := (\<lambda>c n d s p. (zero_volume, Some (Err ''mkfs'')))\<rparr>)
        azure0 config0 ''vol1'' [] ''4000000'' ''azure''))
       = [Call_CreateLocalVolume config0 ''vol1'' [] ''4000000'' ''azure'']"
    using CreateVolume_aborts_early [of "''4000000''" "Err ''mkfs''"
        "env_ok\<lparr>CreateLocalVolume := (\<lambda>c n d s p. (zero_volume, Some (Err ''mkfs'')))\<rparr>"
        azure0 config0 "''vol1''" "[]" "''azure''" 4000000 zero_volume] ok
    by simp
  have c3: "created_disks (snd (snd (CreateVolume
        (env_ok\<lparr>CopyToBucket := (\<lambda>c p. Some (Err ''upload''))\<rparr>)
        azure0 config0 ''vol1'' [] ''4000000'' ''azure''))) = []"
    using CreateVolume_aborts_early [of "''4000000''" "Err ''upload''"
        "env_ok\<lparr>CopyToBucket := (\<lambda>c p. Some (Err ''upload''))\<rparr>"
        azure0 config0 "''vol1''" "[]" "''azure''" 4000000 vol1_local] ok
    by (simp add: env_ok_def vol1_local_def)
  have c4: "snd (fst (CreateVolume
        (env_ok\<lparr>disks_CreateOrUpdate := (\<lambda>g n d. Some (Err ''quota''))\<rparr>)
        azure0 config0 ''vol1'' [] ''4000000'' ''azure'')) = Some (Err ''quota'')"
    using CreateVolume_aborts_early [of "''4000000''" "Err ''quota''"
        "env_ok\<lparr>disks_CreateOrUpdate := (\<lambda>g n d. Some (Err ''quota''))\<rparr>"
        azure0 config0 "''vol1''" "[]" "''azure''" 4000000 vol1_local] ok
    by (auto simp add: env_ok_def vol1_local_def)
  from c1 c2 c3 c4 show ?thesis by blast
qed

text \<open>
  C8. In every run that reaches the upload, the upload collaborator is called with a
  configuration whose \<open>CloudConfig.ImageName\<close> is the volume name (everything else as the
  caller passed it), and that is the configuration the caller holds afterwards.
\<close>

theorem CreateVolume_sets_ImageName:
  assumes "Atoi sizeStr = Inr n"
    and "CreateLocalVolume e config name data sizeStr provider = (vol, None)"
  shows "\<exists>config' rest.
     snd (snd (CreateVolume e a config name data sizeStr provider))
       = Call_CreateLocalVolume config name data sizeStr provider
         # Call_CopyToBucket config' (vol_Path vol) # rest
     \<and> ImageName (CloudConfig config') = name
     \<and> BucketName (CloudConfig config') = BucketName (CloudConfig config)
     \<and> fst (snd (CreateVolume e a config name data sizeStr provider)) = config'"
proof (cases "CopyToBucket e (with_ImageName config name) (vol_Path vol)")
  case None
  from CreateVolume_uploaded [OF assms None, of a] obtain diskParams where
    "CreateVolume e a config name data sizeStr provider =
       ((vol, disks_CreateOrUpdate e (groupName a) name diskParams), with_ImageName config name,
        [Call_CreateLocalVolume config name data sizeStr provider,
         Call_CopyToBucket (with_ImageName config name) (vol_Path vol),
         Call_disks_CreateOrUpdate (groupName a) name diskParams])"
    by blast
  then show ?thesis by simp
next
  case (Some err)
  from CreateVolume_upload_failed [OF assms Some, of a] show ?thesis by simp
qed

theorem CreateVolume_sets_ImageName_witness:
  "Atoi ''4000000'' = Inr 4000000
   \<and> ImageName (CloudConfig (fst (snd
        (CreateVolume env_ok azure0 config0 ''vol1'' [] ''4000000'' ''azure'')))) = ''vol1''"
proof -
  have h1: "Atoi ''4000000'' = Inr 4000000"
    by (simp add: Atoi_def is_digit_def digit_val_def)
  have h2: "CreateLocalVolume env_ok config0 ''vol1'' [] ''4000000'' ''azure'' = (vol1_local, None)"
    by (simp add: env_ok_def vol1_local_def)
  from CreateVolume_sets_ImageName [OF h1 h2, of azure0] h1 show ?thesis by auto
qed

section \<open>GetAllVolumes: the listing loop\<close>

lemma strings_Split_not_Nil: "strings_Split s sep \<noteq> []"
  by (induction s) (auto split: list.splits)

lemma strings_Split_no_sep: "sep \<notin> set s \<Longrightarrow> strings_Split s sep = [s]"
  by (induction s) auto

lemma strings_Split_sep: "sep \<in> set s \<Longrightarrow> \<exists>p q qs. strings_Split s sep = p # q # qs"
proof (induction s)
  case Nil
  then show ?case by simp
next
  case (Cons c s)
  show ?case
  proof (cases "c = sep")
    case True
    then show ?thesis using strings_Split_not_Nil [of s sep]
      by (cases "strings_Split s sep") auto
  next
    case False
    with Cons show ?thesis by auto
  qed
qed

lemma takeWhile_all: "\<forall>x\<in>set xs. P x \<Longrightarrow> takeWhile P xs = xs"
  by (induction xs) auto

lemma takeWhile_no_sep:
  assumes "sep \<notin> set s"
  shows "takeWhile (\<lambda>c. c \<noteq> sep) (rev s) = rev s"
proof -
  have "\<forall>x\<in>set (rev s). x \<noteq> sep" using assms by auto
  then show ?thesis by (rule takeWhile_all)
qed

lemma after_last_Cons:
  "after_last sep (c # s) = (if sep \<in> set s then after_last sep s else if c = sep then s else c # s)"
proof (cases "sep \<in> set s")
  case True
  then show ?thesis by (auto simp: after_last_def takeWhile_append)
next
  case False
  then have "takeWhile (\<lambda>c. c \<noteq> sep) (rev s) = rev s"
    by (rule takeWhile_no_sep)
  with False show ?thesis by (auto simp: after_last_def takeWhile_append)
qed

lemma last_strings_Split: "last (strings_Split s sep) = after_last sep s"
proof (induction s)
  case Nil
  then show ?case by (simp add: after_last_def)
next
  case (Cons c s)
  show ?case
  proof (cases "sep \<in> set s")
    case True
    from strings_Split_sep [OF True] obtain p q qs where "strings_Split s sep = p # q # qs"
      by blast
    with Cons True show ?thesis by (simp add: after_last_Cons)
  next
    case False
    then show ?thesis by (simp add: after_last_Cons strings_Split_no_sep)
  qed
qed

lemma nanos_volume_of_disk_fields:
  assumes "nanos_volume_of_disk d = Returns v"
  shows "vol_AttachedTo v = (case ManagedBy d of None \<Rightarrow> [] | Some m \<Rightarrow> after_last (CHR ''/'') m)"
    and "vol_Path v = []"
  using assms strings_Split_not_Nil
  by (auto simp: nanos_volume_of_disk_def Let_def last_strings_Split [symmetric] last_conv_nth
      split: option.splits if_splits)

lemma nanos_volume_of_disk_Panics: "nanos_volume_of_disk d = Panics \<longleftrightarrow> \<not> disk_populated d"
  using strings_Split_not_Nil
  by (auto simp: nanos_volume_of_disk_def disk_populated_def Let_def split: option.splits)

lemma listed_disks_Next: "set (listed_disks (fst (page_Next page))) \<subseteq> set (listed_disks page)"
  by (auto simp: listed_disks_def page_Next_def split: list.splits sum.splits)

lemma page_current_listed: "set (page_current page) \<subseteq> set (listed_disks page)"
  by (simp add: listed_disks_def)

lemma range_disks_Returns:
  "range_disks vols page disks = Returns (vols', page') \<Longrightarrow>
   (\<exists>new. vols' = vols @ new \<and> list_all2 (\<lambda>d v. nanos_volume_of_disk d = Returns v) disks new)
   \<and> set (listed_disks page') \<subseteq> set (listed_disks page)"
proof (induction disks arbitrary: vols page)
  case Nil
  then show ?case by simp
next
  case (Cons disk disks)
  from Cons.prems obtain vol where
    vol: "nanos_volume_of_disk disk = Returns vol"
    and rest: "range_disks (vols @ [vol]) (fst (page_Next page)) disks = Returns (vols', page')"
    by (auto split: outcome.splits)
  from Cons.IH [OF rest] obtain new where
    new: "vols' = (vols @ [vol]) @ new"
      "list_all2 (\<lambda>d v. nanos_volume_of_disk d = Returns v) disks new"
    and sub: "set (listed_disks page') \<subseteq> set (listed_disks (fst (page_Next page)))"
    by blast
  have "vols' = vols @ (vol # new)" using new(1) by simp
  moreover have "list_all2 (\<lambda>d v. nanos_volume_of_disk d = Returns v) (disk # disks) (vol # new)"
    using vol new(2) by simp
  moreover have "set (listed_disks page') \<subseteq> set (listed_disks page)"
    using sub listed_disks_Next [of page] by blast
  ultimately show ?case by blast
qed

lemma list_all2_origin: "list_all2 P xs ys \<Longrightarrow> y \<in> set ys \<Longrightarrow> \<exists>x\<in>set xs. P x y"
  by (induction rule: list_all2_induct) auto

lemma range_disks_Panics:
  "range_disks vols page disks = Panics \<longleftrightarrow> (\<exists>d\<in>set disks. \<not> disk_populated d)"
  by (induction disks arbitrary: vols page)
     (auto simp: nanos_volume_of_disk_Panics [symmetric] split: outcome.splits)

lemma get_all_volumes_loop_origin:
  "get_all_volumes_loop vols page = Returns vols' \<Longrightarrow> v \<in> set vols' \<Longrightarrow>
   v \<in> set vols \<or> (\<exists>d\<in>set (listed_disks page). nanos_volume_of_disk d = Returns v)"
proof (induction vols page rule: get_all_volumes_loop.induct)
  case (1 vols page)
  show ?case
  proof (cases "page_Values page")
    case None
    with "1.prems" show ?thesis by (simp add: get_all_volumes_loop.simps)
  next
    case (Some disks)
    with "1.prems"(1) obtain vols1 page1 where
      r: "range_disks vols page disks = Returns (vols1, page1)"
      and l: "get_all_volumes_loop vols1 page1 = Returns vols'"
      by (auto simp: get_all_volumes_loop.simps [of vols page] split: outcome.splits)
    from "1.IH" [OF Some r refl l "1.prems"(2)]
    have "v \<in> set vols1 \<or> (\<exists>d\<in>set (listed_disks page1). nanos_volume_of_disk d = Returns v)" .
    moreover from range_disks_Returns [OF r] obtain new where
      new: "vols1 = vols @ new" "list_all2 (\<lambda>d v. nanos_volume_of_disk d = Returns v) disks new"
      and sub: "set (listed_disks page1) \<subseteq> set (listed_disks page)"
      by blast
    moreover have "set disks \<subseteq> set (listed_disks page)"
      using Some page_current_listed [of page] by (auto simp: page_Values_def split: if_splits)
    moreover have "\<exists>d\<in>set disks. nanos_volume_of_disk d = Returns v" if "v \<in> set new"
      using list_all2_origin [OF new(2) that] .
    ultimately show ?thesis by auto
  qed
qed

lemma get_all_volumes_loop_no_panic:
  "\<forall>d\<in>set (listed_disks page). disk_populated d \<Longrightarrow> get_all_volumes_loop vols page \<noteq> Panics"
proof (induction vols page rule: get_all_volumes_loop.induct)
  case (1 vols page)
  show ?case
  proof (cases "page_Values page")
    case None
    then show ?thesis by (simp add: get_all_volumes_loop.simps)
  next
    case (Some disks)
    have "set disks \<subseteq> set (listed_disks page)"
      using Some page_current_listed [of page] by (auto simp: page_Values_def split: if_splits)
    with "1.prems" have "range_disks vols page disks \<noteq> Panics"
      by (auto simp: range_disks_Panics)
    then obtain vols1 page1 where r: "range_disks vols page disks = Returns (vols1, page1)"
      by (cases "range_disks vols page disks") auto
    from range_disks_Returns [OF r] "1.prems"
    have "\<forall>d\<in>set (listed_disks page1). disk_populated d" by blast
    from "1.IH" [OF Some r refl this] have "get_all_volumes_loop vols1 page1 \<noteq> Panics" .
    with Some r show ?thesis by (simp add: get_all_volumes_loop.simps [of vols page])
  qed
qed

lemma get_all_volumes_loop_panic:
  assumes "\<exists>d\<in>set (page_current page). \<not> disk_populated d"
  shows "get_all_volumes_loop vols page = Panics"
proof -
  from assms have "page_Values page = Some (page_current page)"
    by (auto simp: page_Values_def)
  moreover from assms have "range_disks vols page (page_current page) = Panics"
    by (simp add: range_disks_Panics)
  ultimately show ?thesis by (simp add: get_all_volumes_loop.simps [of vols page])
qed

lemmas eval_volume_of_disk =
  nanos_volume_of_disk_def Let_def Itoa_def nat_digits.simps digit_char_def
  disk_a_def disk_b_def disk_c_def volume_a_def volume_b_def volume_c_def

lemma volume_of_disk_a: "nanos_volume_of_disk disk_a = Returns volume_a"
  by (simp add: eval_volume_of_disk)

lemma volume_of_disk_b: "nanos_volume_of_disk disk_b = Returns volume_b"
  by (simp add: eval_volume_of_disk)

lemma volume_of_disk_c: "nanos_volume_of_disk disk_c = Returns volume_c"
  by (simp add: eval_volume_of_disk)

lemma run_two_disks:
  "GetAllVolumes (env_listing [disk_a, disk_b] []) azure0 config0 = Returns (Some [volume_a, volume_b], None)"
  by (simp add: GetAllVolumes_def env_listing_def get_all_volumes_loop.simps page_Values_def
      page_Next_def volume_of_disk_a volume_of_disk_b)

text \<open>
  C4. Every volume that GetAllVolumes returns was built from a disk of the provider's
  listing; its \<open>AttachedTo\<close> is the part of that disk's \<open>ManagedBy\<close> after the last
  \<open>/\<close> (all of it when it holds no \<open>/\<close>), or empty when \<open>ManagedBy\<close> is nil; and
  its \<open>Path\<close> is empty.
\<close>

theorem GetAllVolumes_AttachedTo_Path:
  assumes "GetAllVolumes e a config = Returns (Some vols, err)"
    and "v \<in> set vols"
  shows "\<exists>page d. disks_List e = Inr page \<and> d \<in> set (listed_disks page)
     \<and> nanos_volume_of_disk d = Returns v
     \<and> vol_AttachedTo v = (case ManagedBy d of None \<Rightarrow> [] | Some m \<Rightarrow> after_last (CHR ''/'') m)
     \<and> vol_Path v = []"
proof -
  from assms(1) obtain page where
    page: "disks_List e = Inr page" and loop: "get_all_volumes_loop [] page = Returns vols"
    by (auto simp: GetAllVolumes_def split: sum.splits outcome.splits)
  from get_all_volumes_loop_origin [OF loop assms(2)] obtain d where
    d: "d \<in> set (listed_disks page)" "nanos_volume_of_disk d = Returns v"
    by auto
  from nanos_volume_of_disk_fields [OF d(2)] page d show ?thesis by blast
qed

theorem GetAllVolumes_AttachedTo_Path_witness:
  "GetAllVolumes (env_listing [disk_a, disk_b] []) azure0 config0 = Returns (Some [volume_a, volume_b], None)
   \<and> volume_a \<in> set [volume_a, volume_b]
   \<and> (\<exists>page d. disks_List (env_listing [disk_a, disk_b] []) = Inr page \<and> d \<in> set (listed_disks page)
     \<and> nanos_volume_of_disk d = Returns volume_a
     \<and> vol_AttachedTo volume_a = (case ManagedBy d of None \<Rightarrow> [] | Some m \<Rightarrow> after_last (CHR ''/'') m)
     \<and> vol_Path volume_a = [])
   \<and> vol_AttachedTo volume_a = ''vm1''"
proof -
  have h2: "volume_a \<in> set [volume_a, volume_b]" by simp
  from GetAllVolumes_AttachedTo_Path [OF run_two_disks h2] run_two_disks h2
  show ?thesis by (simp add: volume_a_def)
qed

text \<open>
  C5. The loop calls \<open>Next\<close> after every disk, not after every page. Here the listing
  has two disks on its first page and a third on a second page: the second page is
  fetched while the first is still being read, and passed over. The volume of the third
  disk is not returned. (A listing of a single page, and an empty one, are returned whole:
  the empty one as an empty list that is not nil, with no error.)
\<close>

theorem GetAllVolumes_skips_page:
  "GetAllVolumes (env_listing [disk_a, disk_b] [Inr [disk_c]]) azure0 config0
     = Returns (Some [volume_a, volume_b], None)
   \<and> nanos_volume_of_disk disk_c = Returns volume_c
   \<and> volume_c \<notin> set [volume_a, volume_b]
   \<and> GetAllVolumes (env_listing [] []) azure0 config0 = Returns (Some [], None)"
  by (simp add: GetAllVolumes_def env_listing_def get_all_volumes_loop.simps page_Values_def
      page_Next_def volume_of_disk_a volume_of_disk_b volume_of_disk_c volume_a_def volume_b_def
      volume_c_def)

text \<open>
  C6. A failure of the first request is returned, with no list. A failure of a request for
  a later page is dropped: here the second request fails once, the loop reads the first
  page again, and the call returns a list (with the first disk twice) and no error.
\<close>

theorem GetAllVolumes_drops_Next_error:
  "GetAllVolumes (env_listing [disk_a] [Inl (Err ''timeout''), Inr [disk_b]]) azure0 config0
     = Returns (Some [volume_a, volume_a, volume_b], None)
   \<and> GetAllVolumes (env_ok\<lparr>disks_List := Inl (Err ''denied'')\<rparr>) azure0 config0
     = Returns (None, Some (Err ''denied''))"
  by (simp add: GetAllVolumes_def env_listing_def get_all_volumes_loop.simps page_Values_def
      page_Next_def volume_of_disk_a volume_of_disk_b)

section \<open>AttachVolume and DetachVolume: the update\<close>

lemma get_DataDisks_Returns:
  "get_DataDisks vm = Returns dataDisks \<longleftrightarrow>
   (\<exists>props profile. VirtualMachineProperties vm = Some props \<and> StorageProfile props = Some profile
      \<and> DataDisks profile = Some dataDisks)"
  by (auto simp: get_DataDisks_def split: option.splits)

lemma with_DataDisks_same:
  "VirtualMachineProperties vm = Some props \<Longrightarrow> StorageProfile props = Some profile \<Longrightarrow>
   DataDisks profile = Some dataDisks \<Longrightarrow> with_DataDisks vm props profile dataDisks = vm"
  by (cases vm, cases props, cases profile) simp

lemma update_and_wait_rejected:
  "vm_CreateOrUpdate e (groupName a) img vm = Inl err \<Longrightarrow>
   update_and_wait e a img notice vm t =
     (Returns (Some (Errorf ''cannot update vm: '' err)),
      t @ [Call_vm_CreateOrUpdate (groupName a) img vm])"
  by (simp add: update_and_wait_def)

lemma update_and_wait_accepted:
  "vm_CreateOrUpdate e (groupName a) img vm = Inr future \<Longrightarrow>
   update_and_wait e a img notice vm t =
     (Returns (case WaitForCompletionRef e future of
                 None \<Rightarrow> None
               | Some err \<Rightarrow> Some (Errorf ''cannot get the vm create or update future response: '' err)),
      t @ [Call_vm_CreateOrUpdate (groupName a) img vm, Println notice,
           Call_WaitForCompletionRef future])"
  by (simp add: update_and_wait_def split: option.splits)

lemma update_and_wait_no_panic: "fst (update_and_wait e a img notice vm t) \<noteq> Panics"
  by (simp add: update_and_wait_def Let_def split: sum.splits option.splits)

lemma update_and_wait_trace:
  "\<exists>rest. snd (update_and_wait e a img notice vm t)
     = t @ Call_vm_CreateOrUpdate (groupName a) img vm # rest"
  by (simp add: update_and_wait_def Let_def split: sum.splits option.splits)

lemma AttachVolume_reaches_update:
  assumes "vm_Get e (groupName a) img = Inr vm"
    and "disks_Get e (groupName a) name = Inr disk"
    and "disk_ID disk = Some diskID"
    and "VirtualMachineProperties vm = Some props"
    and "StorageProfile props = Some profile"
  shows "AttachVolume e a config img name mount =
     update_and_wait e a img attach_notice
       (with_DataDisks vm props profile [attached_disk name diskID])
       [Call_vm_Get (groupName a) img, Call_disks_Get (groupName a) name]"
  using assms by (simp add: AttachVolume_def Let_def set_DataDisks_def)

lemma detach_filter_absent:
  "\<forall>d\<in>set disks. \<exists>n. dd_Name d = Some n \<and> n \<noteq> name \<Longrightarrow>
   detach_filter name acc disks = Returns (acc @ disks)"
  by (induction disks arbitrary: acc) auto

lemma detach_filter_Panics:
  "detach_filter name acc disks = Panics \<longleftrightarrow> (\<exists>d\<in>set disks. dd_Name d = None)"
  by (induction disks arbitrary: acc) (auto split: option.splits)

lemma detach_filter_result:
  "\<forall>d\<in>set disks. dd_Name d \<noteq> None \<Longrightarrow>
   detach_filter name acc disks = Returns (acc @ filter (\<lambda>d. dd_Name d \<noteq> Some name) disks)"
  by (induction disks arbitrary: acc) auto

lemma DetachVolume_reaches_update:
  assumes "vm_Get e (groupName a) img = Inr vm"
    and "VirtualMachineProperties vm = Some props"
    and "StorageProfile props = Some profile"
    and "DataDisks profile = Some dataDisks"
    and "detach_filter name [] dataDisks = Returns kept"
  shows "DetachVolume e a config img name =
     update_and_wait e a img detach_notice (with_DataDisks vm props profile kept)
       [Call_vm_Get (groupName a) img]"
  using assms by (simp add: DetachVolume_def Let_def set_DataDisks_def get_DataDisks_def)

lemma DetachVolume_Panics:
  assumes "vm_Get e (groupName a) img = Inr vm" and "get_DataDisks vm = Returns dataDisks"
  shows "fst (DetachVolume e a config img name) = Panics \<longleftrightarrow> (\<exists>d\<in>set dataDisks. dd_Name d = None)"
proof (cases "detach_filter name [] dataDisks")
  case Panics
  then have "\<exists>d\<in>set dataDisks. dd_Name d = None"
    using detach_filter_Panics [of name "[]" dataDisks] by simp
  with assms Panics show ?thesis
    by (simp add: DetachVolume_def)
next
  case (Returns kept)
  from assms(2) obtain props profile where
    p: "VirtualMachineProperties vm = Some props" "StorageProfile props = Some profile"
       "DataDisks profile = Some dataDisks"
    by (auto simp: get_DataDisks_Returns)
  from Returns have "\<not> (\<exists>d\<in>set dataDisks. dd_Name d = None)"
    using detach_filter_Panics [of name "[]" dataDisks] by simp
  with DetachVolume_reaches_update [OF assms(1) p Returns]
  show ?thesis by (simp add: update_and_wait_no_panic)
qed

text \<open>
  C2. Once the instance and the disk have been fetched, AttachVolume submits the instance
  descriptor with its data-disk list replaced by the one entry for the named disk, at
  logical unit 0, whatever the list held before, and nothing else changed. If the
  submission is refused it returns \<open>cannot update vm\<close> without waiting; otherwise it
  prints the notice, waits for the operation, and returns the wait's failure under another
  message, or success. The two error values are never equal.
\<close>

theorem AttachVolume_replaces_data_disks:
  assumes "vm_Get e (groupName a) img = Inr vm"
    and "disks_Get e (groupName a) name = Inr disk"
    and "disk_ID disk = Some diskID"
    and "VirtualMachineProperties vm = Some props"
    and "StorageProfile props = Some profile"
  shows "get_DataDisks (with_DataDisks vm props profile [attached_disk name diskID])
           = Returns [attached_disk name diskID]
     \<and> (vm_CreateOrUpdate e (groupName a) img
            (with_DataDisks vm props profile [attached_disk name diskID]) = Inl err \<longrightarrow>
          AttachVolume e a config img name mount =
            (Returns (Some (Errorf ''cannot update vm: '' err)),
             [Call_vm_Get (groupName a) img, Call_disks_Get (groupName a) name,
              Call_vm_CreateOrUpdate (groupName a) img
                (with_DataDisks vm props profile [attached_disk name diskID])]))
     \<and> (vm_CreateOrUpdate e (groupName a) img
            (with_DataDisks vm props profile [attached_disk name diskID]) = Inr future \<longrightarrow>
          AttachVolume e a config img name mount =
            (Returns (case WaitForCompletionRef e future of
                        None \<Rightarrow> None
                      | Some err' \<Rightarrow>
                          Some (Errorf ''cannot get the vm create or update future response: '' err')),
             [Call_vm_Get (groupName a) img, Call_disks_Get (groupName a) name,
              Call_vm_CreateOrUpdate (groupName a) img
                (with_DataDisks vm props profile [attached_disk name diskID]),
              Println attach_notice, Call_WaitForCompletionRef future]))
     \<and> Errorf ''cannot update vm: '' err
           \<noteq> Errorf ''cannot get the vm create or update future response: '' err'"
proof -
  note run = AttachVolume_reaches_update [OF assms, of config mount]
  have "get_DataDisks (with_DataDisks vm props profile [attached_disk name diskID])
           = Returns [attached_disk name diskID]"
    by (simp add: get_DataDisks_def)
  moreover have "AttachVolume e a config img name mount =
            (Returns (Some (Errorf ''cannot update vm: '' err)),
             [Call_vm_Get (groupName a) img, Call_disks_Get (groupName a) name,
              Call_vm_CreateOrUpdate (groupName a) img
                (with_DataDisks vm props profile [attached_disk name diskID])])"
    if "vm_CreateOrUpdate e (groupName a) img
            (with_DataDisks vm props profile [attached_disk name diskID]) = Inl err"
    using update_and_wait_rejected [OF that] by (simp add: run)
  moreover have "AttachVolume e a config img name mount =
            (Returns (case WaitForCompletionRef e future of
                        None \<Rightarrow> None
                      | Some err' \<Rightarrow>
                          Some (Errorf ''cannot get the vm create or update future response: '' err')),
             [Call_vm_Get (groupName a) img, Call_disks_Get (groupName a) name,
              Call_vm_CreateOrUpdate (groupName a) img
                (with_DataDisks vm props profile [attached_disk name diskID]),
              Println attach_notice, Call_WaitForCompletionRef future])"
    if "vm_CreateOrUpdate e (groupName a) img
            (with_DataDisks vm props profile [attached_disk name diskID]) = Inr future"
    using update_and_wait_accepted [OF that] by (simp add: run)
  moreover have "Errorf ''cannot update vm: '' err
           \<noteq> Errorf ''cannot get the vm create or update future response: '' err'"
    by simp
  ultimately show ?thesis by blast
qed

theorem AttachVolume_replaces_data_disks_witness:
  "AttachVolume env_vm azure0 config0 ''vm1'' ''b'' [] =
     (Returns None,
      [Call_vm_Get ''group'' ''vm1'', Call_disks_Get ''group'' ''b'',
       Call_vm_CreateOrUpdate ''group'' ''vm1'' vm1_with_b,
       Println attach_notice, Call_WaitForCompletionRef (Future 0)])
   \<and> get_DataDisks vm1 = Returns [attached_disk ''a'' ''/disks/a'']
   \<and> get_DataDisks vm1_with_b = Returns [attached_disk ''b'' ''/disks/b'']
   \<and> AttachVolume (env_vm\<lparr>vm_CreateOrUpdate := (\<lambda>g n v. Inl (Err ''conflict''))\<rparr>)
         azure0 config0 ''vm1'' ''b'' [] =
     (Returns (Some (Errorf ''cannot update vm: '' (Err ''conflict''))),
      [Call_vm_Get ''group'' ''vm1'', Call_disks_Get ''group'' ''b'',
       Call_vm_CreateOrUpdate ''group'' ''vm1'' vm1_with_b])"
proof -
  have g: "groupName azure0 = ''group''" by (simp add: azure0_def)
  have h1: "vm_Get env_vm (groupName azure0) ''vm1'' = Inr vm1"
    and h2: "disks_Get env_vm (groupName azure0) ''b'' = Inr disk_b"
    and h3: "disk_ID disk_b = Some ''/disks/b''"
    and h4: "VirtualMachineProperties vm1 = Some \<lparr>VMID = Some ''0001'',
       StorageProfile = Some \<lparr>OsDisk = Some ''os'',
         DataDisks = Some [attached_disk ''a'' ''/disks/a'']\<rparr>\<rparr>"
    and h5: "StorageProfile \<lparr>VMID = Some ''0001'',
       StorageProfile = Some \<lparr>OsDisk = Some ''os'',
         DataDisks = Some [attached_disk ''a'' ''/disks/a'']\<rparr>\<rparr>
       = Some \<lparr>OsDisk = Some ''os'', DataDisks = Some [attached_disk ''a'' ''/disks/a'']\<rparr>"
    by (simp_all add: env_vm_def disk_b_def vm1_def)
  have k1: "vm_Get (env_vm\<lparr>vm_CreateOrUpdate := (\<lambda>g n v. Inl (Err ''conflict''))\<rparr>)
      (groupName azure0) ''vm1'' = Inr vm1"
    and k2: "disks_Get (env_vm\<lparr>vm_CreateOrUpdate := (\<lambda>g n v. Inl (Err ''conflict''))\<rparr>)
      (groupName azure0) ''b'' = Inr disk_b"
    by (simp_all add: env_vm_def)
  have old: "get_DataDisks vm1 = Returns [attached_disk ''a'' ''/disks/a'']"
    by (simp add: get_DataDisks_def vm1_def)
  from AttachVolume_replaces_data_disks [OF h1 h2 h3 h4 h5, of "Err ''conflict''" config0 "[]" "Future 0"]
  have ok: "AttachVolume env_vm azure0 config0 ''vm1'' ''b'' [] =
     (Returns None,
      [Call_vm_Get ''group'' ''vm1'', Call_disks_Get ''group'' ''b'',
       Call_vm_CreateOrUpdate ''group'' ''vm1'' vm1_with_b,
       Println attach_notice, Call_WaitForCompletionRef (Future 0)])"
    and new: "get_DataDisks vm1_with_b = Returns [attached_disk ''b'' ''/disks/b'']"
    by (simp_all add: vm1_def vm1_with_b_def g env_vm_def env_ok_def)
  from AttachVolume_replaces_data_disks [OF k1 k2 h3 h4 h5, of "Err ''conflict''" config0 "[]" "Future 0"]
  have refused: "AttachVolume (env_vm\<lparr>vm_CreateOrUpdate := (\<lambda>g n v. Inl (Err ''conflict''))\<rparr>)
         azure0 config0 ''vm1'' ''b'' [] =
     (Returns (Some (Errorf ''cannot update vm: '' (Err ''conflict''))),
      [Call_vm_Get ''group'' ''vm1'', Call_disks_Get ''group'' ''b'',
       Call_vm_CreateOrUpdate ''group'' ''vm1'' vm1_with_b])"
    by (simp add: vm1_def vm1_with_b_def g)
  from ok old new refused show ?thesis by blast
qed

text \<open>
  C3. When the instance's data-disk list is present, every entry has a name, and none of
  the names is the volume's, DetachVolume submits the instance descriptor exactly as it
  fetched it (so with the same data-disk list, element for element), and returns no error
  once the provider accepts the update and the wait completes.
\<close>

theorem DetachVolume_absent_name:
  assumes "vm_Get e (groupName a) img = Inr vm"
    and "get_DataDisks vm = Returns dataDisks"
    and "\<forall>d\<in>set dataDisks. \<exists>n. dd_Name d = Some n \<and> n \<noteq> name"
  shows "(\<exists>rest. snd (DetachVolume e a config img name)
            = Call_vm_Get (groupName a) img # Call_vm_CreateOrUpdate (groupName a) img vm # rest)
     \<and> (vm_CreateOrUpdate e (groupName a) img vm = Inr future
          \<and> WaitForCompletionRef e future = None \<longrightarrow>
          DetachVolume e a config img name =
            (Returns None,
             [Call_vm_Get (groupName a) img, Call_vm_CreateOrUpdate (groupName a) img vm,
              Println detach_notice, Call_WaitForCompletionRef future]))"
proof -
  from assms(2) obtain props profile where
    p: "VirtualMachineProperties vm = Some props" "StorageProfile props = Some profile"
       "DataDisks profile = Some dataDisks"
    by (auto simp: get_DataDisks_Returns)
  have kept: "detach_filter name [] dataDisks = Returns dataDisks"
    using detach_filter_absent [OF assms(3), of "[]"] by simp
  have run: "DetachVolume e a config img name =
     update_and_wait e a img detach_notice vm [Call_vm_Get (groupName a) img]"
    using DetachVolume_reaches_update [OF assms(1) p kept, of config]
    by (simp only: with_DataDisks_same [OF p])
  have "\<exists>rest. snd (DetachVolume e a config img name)
            = Call_vm_Get (groupName a) img # Call_vm_CreateOrUpdate (groupName a) img vm # rest"
    using update_and_wait_trace [of e a img detach_notice vm "[Call_vm_Get (groupName a) img]"]
    by (simp add: run)
  moreover have "DetachVolume e a config img name =
            (Returns None,
             [Call_vm_Get (groupName a) img, Call_vm_CreateOrUpdate (groupName a) img vm,
              Println detach_notice, Call_WaitForCompletionRef future])"
    if "vm_CreateOrUpdate e (groupName a) img vm = Inr future \<and> WaitForCompletionRef e future = None"
    using that update_and_wait_accepted [of e a img vm future detach_notice "[Call_vm_Get (groupName a) img]"]
    by (simp add: run)
  ultimately show ?thesis by blast
qed

theorem DetachVolume_absent_name_witness:
  "get_DataDisks vm1 = Returns [attached_disk ''a'' ''/disks/a'']
   \<and> DetachVolume env_vm azure0 config0 ''vm1'' ''b'' =
       (Returns None,
        [Call_vm_Get ''group'' ''vm1'', Call_vm_CreateOrUpdate ''group'' ''vm1'' vm1,
         Println detach_notice, Call_WaitForCompletionRef (Future 0)])"
proof -
  have g: "groupName azure0 = ''group''" by (simp add: azure0_def)
  have h1: "vm_Get env_vm (groupName azure0) ''vm1'' = Inr vm1"
    by (simp add: env_vm_def)
  have h2: "get_DataDisks vm1 = Returns [attached_disk ''a'' ''/disks/a'']"
    by (simp add: get_DataDisks_def vm1_def)
  have h3: "\<forall>d\<in>set [attached_disk ''a'' ''/disks/a'']. \<exists>n. dd_Name d = Some n \<and> n \<noteq> ''b''"
    by simp
  have h4: "vm_CreateOrUpdate env_vm (groupName azure0) ''vm1'' vm1 = Inr (Future 0)"
    and h5: "WaitForCompletionRef env_vm (Future 0) = None"
    by (simp_all add: env_vm_def env_ok_def)
  from DetachVolume_absent_name [OF h1 h2 h3, of config0 "Future 0"] h4 h5 h2
  show ?thesis by (simp add: g)
qed

section \<open>Nil dereferences\<close>

text \<open>
  C10 (as amended). Building a volume from a disk descriptor panics exactly when the
  descriptor lacks \<open>Name\<close>, \<open>DiskProperties\<close>, \<open>DiskSizeGB\<close> or \<open>TimeCreated\<close>.
  GetAllVolumes does not panic when every descriptor of the listing has them, and panics
  when a descriptor of the first page lacks one. DetachVolume, on an instance whose
  data-disk list is present, panics exactly when some entry of the list has no \<open>Name\<close>.
\<close>

theorem nil_dereferences:
  "(nanos_volume_of_disk d = Panics \<longleftrightarrow>
      disk_Name d = None \<or> DiskProperties d = None
      \<or> (\<exists>props. DiskProperties d = Some props \<and> (DiskSizeGB props = None \<or> TimeCreated props = None)))
   \<and> (disks_List e = Inr page \<and> (\<forall>d\<in>set (listed_disks page). disk_populated d) \<longrightarrow>
        GetAllVolumes e a config \<noteq> Panics)
   \<and> (disks_List e = Inr page \<and> (\<exists>d\<in>set (page_current page). \<not> disk_populated d) \<longrightarrow>
        GetAllVolumes e a config = Panics)
   \<and> (vm_Get e (groupName a) img = Inr vm \<and> get_DataDisks vm = Returns dataDisks \<longrightarrow>
        (fst (DetachVolume e a config img name) = Panics \<longleftrightarrow> (\<exists>d\<in>set dataDisks. dd_Name d = None)))"
proof (intro conjI impI)
  show "nanos_volume_of_disk d = Panics \<longleftrightarrow>
      disk_Name d = None \<or> DiskProperties d = None
      \<or> (\<exists>props. DiskProperties d = Some props \<and> (DiskSizeGB props = None \<or> TimeCreated props = None))"
    by (auto simp: nanos_volume_of_disk_Panics disk_populated_def split: option.splits)
next
  assume "disks_List e = Inr page \<and> (\<forall>d\<in>set (listed_disks page). disk_populated d)"
  then show "GetAllVolumes e a config \<noteq> Panics"
    using get_all_volumes_loop_no_panic [of page "[]"]
    by (auto simp: GetAllVolumes_def split: outcome.splits)
next
  assume "disks_List e = Inr page \<and> (\<exists>d\<in>set (page_current page). \<not> disk_populated d)"
  then show "GetAllVolumes e a config = Panics"
    using get_all_volumes_loop_panic [of page "[]"]
    by (auto simp: GetAllVolumes_def)
next
  assume "vm_Get e (groupName a) img = Inr vm \<and> get_DataDisks vm = Returns dataDisks"
  then show "fst (DetachVolume e a config img name) = Panics \<longleftrightarrow> (\<exists>d\<in>set dataDisks. dd_Name d = None)"
    using DetachVolume_Panics by blast
qed

theorem nil_dereferences_witness:
  "GetAllVolumes (env_listing [disk_a, disk_b] [Inr [disk_c]]) azure0 config0 \<noteq> Panics
   \<and> GetAllVolumes (env_listing [disk_a, disk_unnamed] []) azure0 config0 = Panics
   \<and> fst (DetachVolume (env_ok\<lparr>vm_Get := (\<lambda>g n. Inr vm_unnamed_disk)\<rparr>) azure0 config0 ''vm2'' ''b'') = Panics
   \<and> fst (DetachVolume env_vm azure0 config0 ''vm1'' ''b'') \<noteq> Panics"
proof -
  have l1: "disks_List (env_listing [disk_a, disk_b] [Inr [disk_c]])
      = Inr \<lparr>page_current = [disk_a, disk_b], page_pending = [Inr [disk_c]]\<rparr>"
    and l2: "disks_List (env_listing [disk_a, disk_unnamed] [])
      = Inr \<lparr>page_current = [disk_a, disk_unnamed], page_pending = []\<rparr>"
    by (simp_all add: env_listing_def)
  have p1: "\<forall>d\<in>set (listed_disks \<lparr>page_current = [disk_a, disk_b], page_pending = [Inr [disk_c]]\<rparr>).
      disk_populated d"
    by (simp add: listed_disks_def disk_populated_def disk_a_def disk_b_def disk_c_def)
  have p2: "\<exists>d\<in>set (page_current \<lparr>page_current = [disk_a, disk_unnamed], page_pending = []\<rparr>).
      \<not> disk_populated d"
    by (simp add: disk_populated_def disk_unnamed_def disk_c_def)
  have v1: "vm_Get (env_ok\<lparr>vm_Get := (\<lambda>g n. Inr vm_unnamed_disk)\<rparr>) (groupName azure0) ''vm2''
      = Inr vm_unnamed_disk"
    and v2: "get_DataDisks vm_unnamed_disk
      = Returns [\<lparr>Lun = Some 0, dd_Name = None, dd_CreateOption = ''Attach'', ManagedDisk = None\<rparr>]"
    and v3: "vm_Get env_vm (groupName azure0) ''vm1'' = Inr vm1"
    and v4: "get_DataDisks vm1 = Returns [attached_disk ''a'' ''/disks/a'']"
    by (simp_all add: get_DataDisks_def vm_unnamed_disk_def vm1_def env_vm_def)
  have c1: "GetAllVolumes (env_listing [disk_a, disk_b] [Inr [disk_c]]) azure0 config0 \<noteq> Panics"
    using nil_dereferences [of disk_a "env_listing [disk_a, disk_b] [Inr [disk_c]]"
        "\<lparr>page_current = [disk_a, disk_b], page_pending = [Inr [disk_c]]\<rparr>" azure0 config0] l1 p1
    by blast
  have c2: "GetAllVolumes (env_listing [disk_a, disk_unnamed] []) azure0 config0 = Panics"
    using nil_dereferences [of disk_a "env_listing [disk_a, disk_unnamed] []"
        "\<lparr>page_current = [disk_a, disk_unnamed], page_pending = []\<rparr>" azure0 config0] l2 p2
    by blast
  have c3: "fst (DetachVolume (env_ok\<lparr>vm_Get := (\<lambda>g n. Inr vm_unnamed_disk)\<rparr>) azure0 config0 ''vm2'' ''b'') = Panics"
    using nil_dereferences [of disk_a "env_ok\<lparr>vm_Get := (\<lambda>g n. Inr vm_unnamed_disk)\<rparr>" _
        azure0 config0 "''vm2''" vm_unnamed_disk _ "''b''"] v1 v2
    by simp
  have c4: "fst (DetachVolume env_vm azure0 config0 ''vm1'' ''b'') \<noteq> Panics"
    using nil_dereferences [of disk_a env_vm _ azure0 config0 "''vm1''" vm1 _ "''b''"] v3 v4
    by simp
  from c1 c2 c3 c4 show ?thesis by blast
qed

text \<open>
  Populated fields on every descriptor the provider returns are not necessary for
  GetAllVolumes to return: here the provider's second page holds a disk without a
  \<open>Name\<close>, and the call returns the two volumes of the first page without a panic.
\<close>

theorem nil_dereferences_counterexample:
  "disk_Name disk_unnamed = None
   \<and> GetAllVolumes (env_listing [disk_a, disk_b] [Inr [disk_unnamed]]) azure0 config0
       = Returns (Some [volume_a, volume_b], None)"
  by (simp add: GetAllVolumes_def env_listing_def get_all_volumes_loop.simps page_Values_def
      page_Next_def volume_of_disk_a volume_of_disk_b disk_unnamed_def)

section \<open>The stub backend\<close>

text \<open>
  C9. Whatever the arguments, the five operations of the stub return no error, and
  their results are the zero values: a volume with every field empty, a nil list, nothing.
\<close>

theorem ibm_stub_returns_zero_values:
  "ibm_CreateVolume ctx name data provider
     = (\<lparr>vol_Name = [], vol_Status = [], vol_Size = [], vol_Path = [],
         vol_CreatedAt = [], vol_AttachedTo = []\<rparr>, None)
   \<and> ibm_GetAllVolumes ctx = (None, None)
   \<and> ibm_DeleteVolume ctx name = None
   \<and> ibm_AttachVolume ctx img name attachID = None
   \<and> ibm_DetachVolume ctx img name = None"
  by (simp add: ibm_CreateVolume_def ibm_GetAllVolumes_def ibm_DeleteVolume_def
      ibm_AttachVolume_def ibm_DetachVolume_def zero_volume_def)

end
